theory Spec2Isabelle
  imports Main "HOL-Library.Sublist" "HOL-Library.Char_ord" "HOL-Library.List_Lexorder"
    "HOL-Library.Product_Lexorder"
begin

section \<open>Python strings and integers\<close>

text \<open>
  A Python \<open>str\<close> is modelled as a \<open>string\<close>; a \<open>char\<close> stands for the code point
  with the same number, so the model covers the code points U+0000 to U+00FF. The
  predicates below are CPython's on that range.
\<close>

datatype exn = ValueError | IndexError | CsvError | OSError

definition code_point :: "char \<Rightarrow> nat" where
  "code_point c = of_char c"

text \<open>\<open>str.isspace\<close> on one character: the characters \<open>str.strip()\<close> removes.\<close>

definition isspace_chr :: "char \<Rightarrow> bool" where
  "isspace_chr c =
     (let n = code_point c
      in (9 \<le> n \<and> n \<le> 13) \<or> (28 \<le> n \<and> n \<le> 32) \<or> n = 133 \<or> n = 160)"

definition strip :: "string \<Rightarrow> string" where
  "strip s = rev (dropWhile isspace_chr (rev (dropWhile isspace_chr s)))"

text \<open>\<open>str.isdigit\<close>: the decimal digits and the superscripts U+00B2, U+00B3, U+00B9.\<close>

definition isdigit_chr :: "char \<Rightarrow> bool" where
  "isdigit_chr c =
     (let n = code_point c in (48 \<le> n \<and> n \<le> 57) \<or> n = 178 \<or> n = 179 \<or> n = 185)"

definition isdigit :: "string \<Rightarrow> bool" where
  "isdigit s = (s \<noteq> [] \<and> list_all isdigit_chr s)"

fun startswith :: "string \<Rightarrow> string \<Rightarrow> bool" where
  "startswith s [] = True"
| "startswith [] (p # ps) = False"
| "startswith (c # cs) (p # ps) = (c = p \<and> startswith cs ps)"

text \<open>Python's \<open>p in s\<close> on strings: \<open>p\<close> occurs in \<open>s\<close> as a contiguous substring.\<close>

fun str_in :: "string \<Rightarrow> string \<Rightarrow> bool" where
  "str_in p [] = (p = [])"
| "str_in p (c # cs) = (startswith (c # cs) p \<or> str_in p cs)"

text \<open>
  \<open>int(s)\<close> in base 10: surrounding whitespace, an optional sign, then decimal digits
  that single underscores may separate. The whitespace \<open>int\<close> accepts is narrower than
  that of \<open>strip\<close>: U+001C to U+001F are not skipped. More than 4300 digits raise
  ValueError (CPython's default limit on integer string conversion).
\<close>

definition is_decimal_chr :: "char \<Rightarrow> bool" where
  "is_decimal_chr c = (48 \<le> code_point c \<and> code_point c \<le> 57)"

definition int_space_chr :: "char \<Rightarrow> bool" where
  "int_space_chr c =
     (let n = code_point c in (9 \<le> n \<and> n \<le> 13) \<or> n = 32 \<or> n = 133 \<or> n = 160)"

fun int_literal :: "string \<Rightarrow> bool" where
  "int_literal [] = False"
| "int_literal [c] = is_decimal_chr c"
| "int_literal (c # d # cs) =
     (is_decimal_chr c \<and> (if d = CHR ''_'' then int_literal cs else int_literal (d # cs)))"

definition digit_value :: "char \<Rightarrow> int" where
  "digit_value c = int (code_point c - 48)"

definition literal_value :: "string \<Rightarrow> int" where
  "literal_value body = foldl (\<lambda>a c. 10 * a + digit_value c) 0 (filter is_decimal_chr body)"

definition int_max_str_digits :: nat where
  "int_max_str_digits = 4300"

definition py_int :: "string \<Rightarrow> exn + int" where
  "py_int s =
     (let t = dropWhile int_space_chr s;
          neg = startswith t ''-'';
          t' = (if startswith t ''-'' \<or> startswith t ''+'' then tl t else t);
          body = rev (dropWhile int_space_chr (rev t'))
      in if int_literal body \<and> length (filter is_decimal_chr body) \<le> int_max_str_digits
         then Inr (if neg then - literal_value body else literal_value body)
         else Inl ValueError)"

text \<open>\<open>xs[i]\<close> for a non-negative index: IndexError out of range.\<close>

definition py_index :: "'a list \<Rightarrow> nat \<Rightarrow> exn + 'a" where
  "py_index xs i = (if i < length xs then Inr (xs ! i) else Inl IndexError)"

definition bind_exn :: "exn + 'a \<Rightarrow> ('a \<Rightarrow> exn + 'b) \<Rightarrow> exn + 'b" where
  "bind_exn m f = (case m of Inl e \<Rightarrow> Inl e | Inr x \<Rightarrow> f x)"

section \<open>The csv reader\<close>

text \<open>
  \<open>csv.reader(lines)\<close> with the default dialect (delimiter \<open>,\<close>, quote character \<open>"\<close>,
  doubled quotes, no escape character, not strict), as the state machine of CPython's
  \<open>_csv\<close> module (version 3.11, where a NUL is an ordinary character). \<open>None\<close> is the
  end-of-line signal the reader feeds after each line. A field may hold at most
  131072 characters; the reader raises its error on the next one, and on a character
  other than a line break after a line break outside quotes.
\<close>

datatype parser_state =
  START_RECORD | START_FIELD | IN_FIELD | IN_QUOTED_FIELD | QUOTE_IN_QUOTED_FIELD | EAT_CRNL

record reader =
  rd_state :: parser_state
  rd_field :: string
  rd_fields :: "string list"

definition field_limit :: nat where
  "field_limit = 131072"

definition parse_add_char :: "reader \<Rightarrow> char \<Rightarrow> exn + reader" where
  "parse_add_char rd c =
     (if field_limit \<le> length (rd_field rd) then Inl CsvError
      else Inr (rd\<lparr>rd_field := rd_field rd @ [c]\<rparr>))"

definition parse_save_field :: "reader \<Rightarrow> reader" where
  "parse_save_field rd = rd\<lparr>rd_fields := rd_fields rd @ [rd_field rd], rd_field := []\<rparr>"

definition is_newline :: "char \<Rightarrow> bool" where
  "is_newline c = (c = CHR 0x0A \<or> c = CHR 0x0D)"

definition end_of_line :: "reader \<Rightarrow> char option \<Rightarrow> exn + reader" where
  "end_of_line rd c =
     Inr ((parse_save_field rd)\<lparr>rd_state := (if c = None then START_RECORD else EAT_CRNL)\<rparr>)"

definition start_field :: "reader \<Rightarrow> char option \<Rightarrow> exn + reader" where
  "start_field rd c =
     (case c of
        None \<Rightarrow> end_of_line rd c
      | Some ch \<Rightarrow>
          if is_newline ch then end_of_line rd c
          else if ch = CHR 0x22 then Inr (rd\<lparr>rd_state := IN_QUOTED_FIELD\<rparr>)
          else if ch = CHR '','' then Inr (parse_save_field rd)
          else bind_exn (parse_add_char rd ch) (\<lambda>rd'. Inr (rd'\<lparr>rd_state := IN_FIELD\<rparr>)))"

definition parse_process_char :: "reader \<Rightarrow> char option \<Rightarrow> exn + reader" where
  "parse_process_char rd c =
     (case rd_state rd of
        START_RECORD \<Rightarrow>
          (case c of
             None \<Rightarrow> Inr rd
           | Some ch \<Rightarrow>
               if is_newline ch then Inr (rd\<lparr>rd_state := EAT_CRNL\<rparr>)
               else start_field (rd\<lparr>rd_state := START_FIELD\<rparr>) c)
      | START_FIELD \<Rightarrow> start_field rd c
      | IN_FIELD \<Rightarrow>
          (case c of
             None \<Rightarrow> end_of_line rd c
           | Some ch \<Rightarrow>
               if is_newline ch then end_of_line rd c
               else if ch = CHR '','' then Inr ((parse_save_field rd)\<lparr>rd_state := START_FIELD\<rparr>)
               else parse_add_char rd ch)
      | IN_QUOTED_FIELD \<Rightarrow>
          (case c of
             None \<Rightarrow> Inr rd
           | Some ch \<Rightarrow>
               if ch = CHR 0x22 then Inr (rd\<lparr>rd_state := QUOTE_IN_QUOTED_FIELD\<rparr>)
               else parse_add_char rd ch)
      | QUOTE_IN_QUOTED_FIELD \<Rightarrow>
          (case c of
             None \<Rightarrow> end_of_line rd c
           | Some ch \<Rightarrow>
               if ch = CHR 0x22
               then bind_exn (parse_add_char rd ch) (\<lambda>rd'. Inr (rd'\<lparr>rd_state := IN_QUOTED_FIELD\<rparr>))
               else if ch = CHR '','' then Inr ((parse_save_field rd)\<lparr>rd_state := START_FIELD\<rparr>)
               else if is_newline ch then end_of_line rd c
               else bind_exn (parse_add_char rd ch) (\<lambda>rd'. Inr (rd'\<lparr>rd_state := IN_FIELD\<rparr>)))
      | EAT_CRNL \<Rightarrow>
          (case c of
             None \<Rightarrow> Inr (rd\<lparr>rd_state := START_RECORD\<rparr>)
           | Some ch \<Rightarrow> if is_newline ch then Inr rd else Inl CsvError))"

fun process_chars :: "reader \<Rightarrow> string \<Rightarrow> exn + reader" where
  "process_chars rd [] = Inr rd"
| "process_chars rd (c # cs) =
     (case parse_process_char rd (Some c) of
        Inl e \<Rightarrow> Inl e
      | Inr rd' \<Rightarrow> process_chars rd' cs)"

definition process_line :: "reader \<Rightarrow> string \<Rightarrow> exn + reader" where
  "process_line rd l = bind_exn (process_chars rd l) (\<lambda>rd'. parse_process_char rd' None)"

definition parse_reset :: reader where
  "parse_reset = \<lparr>rd_state = START_RECORD, rd_field = [], rd_fields = []\<rparr>"

text \<open>
  The rows the reader yields from the lines, in order, and the error that ended the
  iteration, if any. A record goes on over the following lines while the state after a
  line is not \<open>START_RECORD\<close> (a quoted field is open); at the end of the input an open
  record is yielded as it stands.
\<close>

fun reader_rows :: "reader \<Rightarrow> string list \<Rightarrow> string list list \<times> exn option" where
  "reader_rows rd [] =
     (if rd_field rd \<noteq> [] \<or> rd_state rd = IN_QUOTED_FIELD
      then ([rd_fields (parse_save_field rd)], None)
      else ([], None))"
| "reader_rows rd (l # ls) =
     (case process_line rd l of
        Inl e \<Rightarrow> ([], Some e)
      | Inr rd' \<Rightarrow>
          if rd_state rd' \<noteq> START_RECORD then reader_rows rd' ls
          else (case reader_rows parse_reset ls of (rs, e) \<Rightarrow> (rd_fields rd' # rs, e)))"

definition csv_reader :: "string list \<Rightarrow> string list list \<times> exn option" where
  "csv_reader lines = reader_rows parse_reset lines"

section \<open>The unit parser\<close>

record SimpleUnit =
  unit_id :: int
  name :: string
  picnum :: int
  unit_class :: int
  category :: string
  regions :: string

definition marker :: string where
  "marker = ''&&UNITS''"

text \<open>The three-tier rule of \<open>parse_units_robust\<close> (lines 141 to 143).\<close>

definition category_of :: "int \<Rightarrow> string" where
  "category_of u_class =
     (if u_class \<le> 6 then ''land'' else if u_class \<le> 12 then ''air'' else ''naval'')"

text \<open>
  The body of the inner \<open>try\<close> (lines 133 to 145): the unit built from a row, or the
  exception a conversion or an index raises.
\<close>

definition make_unit :: "string list \<Rightarrow> exn + SimpleUnit" where
  "make_unit row =
     bind_exn (py_index row 0) (\<lambda>f0.
     bind_exn (py_int f0) (\<lambda>uid.
     bind_exn (py_index row 1) (\<lambda>f1.
     bind_exn (py_index row 2) (\<lambda>f2.
     bind_exn (if strip f2 \<noteq> [] then py_int (strip f2) else Inr 0) (\<lambda>u_class.
     bind_exn (py_index row 3) (\<lambda>f3.
     bind_exn (if strip f3 \<noteq> [] then py_int (strip f3) else Inr 0) (\<lambda>pic.
     bind_exn (if 12 < length row then bind_exn (py_index row 12) (\<lambda>f12. Inr (strip f12))
               else Inr []) (\<lambda>rgn.
     Inr \<lparr>unit_id = uid, name = strip f1, picnum = pic, unit_class = u_class,
          category = category_of u_class, regions = rgn\<rparr>))))))))"

record loop_state =
  units :: "SimpleUnit list"
  start_parsing :: bool

text \<open>
  One iteration of the \<open>for row in reader\<close> loop (lines 118 to 147). The inner
  \<open>except\<close> catches ValueError only; any other exception leaves the loop.
\<close>

definition row_step :: "string list \<Rightarrow> loop_state \<Rightarrow> exn + loop_state" where
  "row_step row s =
     (if row = [] then Inr s
      else if str_in marker (hd row) then Inr (s\<lparr>start_parsing := True\<rparr>)
      else if \<not> start_parsing s then Inr s
      else if length row < 4 then Inr s
      else if startswith (strip (hd row)) ''//'' \<or> \<not> isdigit (strip (hd row)) then Inr s
      else (case make_unit row of
              Inr u \<Rightarrow> Inr (s\<lparr>units := units s @ [u]\<rparr>)
            | Inl ValueError \<Rightarrow> Inr s
            | Inl e \<Rightarrow> Inl e))"

fun rows_loop :: "string list list \<Rightarrow> loop_state \<Rightarrow> loop_state \<times> exn option" where
  "rows_loop [] s = (s, None)"
| "rows_loop (row # rest) s =
     (case row_step row s of
        Inl e \<Rightarrow> (s, Some e)
      | Inr s' \<Rightarrow> rows_loop rest s')"

definition initial_state :: loop_state where
  "initial_state = \<lparr>units = [], start_parsing = False\<rparr>"

text \<open>
  The body of the \<open>with\<close> block on the lines \<open>readlines\<close> returned: the rows are taken
  from the reader one by one, so an error of the reader leaves the loop after the rows
  before it. The result is the loop state and the exception that ended the block, if any.
\<close>

definition parse_lines :: "string list \<Rightarrow> loop_state \<times> exn option" where
  "parse_lines lines =
     (case csv_reader lines of
        (rows, csv_err) \<Rightarrow>
          (case rows_loop rows initial_state of
             (s, None) \<Rightarrow> (s, csv_err)
           | (s, Some e) \<Rightarrow> (s, Some e)))"

text \<open>
  The file system as the parser sees it: a path is absent, or is a text file with the
  lines \<open>readlines\<close> returns, or exists but cannot be opened or read (a directory, no
  permission).
\<close>

datatype fs_node = TextFile "string list" | Unreadable

type_synonym filesystem = "string \<Rightarrow> fs_node option"

text \<open>
  \<open>parse_units_robust\<close> (lines 105 to 151). \<open>Inl\<close> would be an exception that leaves
  the function. The outer \<open>except Exception\<close> prints and falls through to
  \<open>return units\<close>, with the units appended so far.
\<close>

definition parse_units_robust :: "filesystem \<Rightarrow> string \<Rightarrow> exn + SimpleUnit list" where
  "parse_units_robust fs filepath =
     (case fs filepath of
        None \<Rightarrow> Inr []
      | Some Unreadable \<Rightarrow> Inr (units initial_state)
      | Some (TextFile lines) \<Rightarrow> (case parse_lines lines of (s, _) \<Rightarrow> Inr (units s)))"


text \<open>A row whose first field contains the marker (line 121).\<close>

definition is_marker_row :: "string list \<Rightarrow> bool" where
  "is_marker_row row = (row \<noteq> [] \<and> str_in marker (hd row))"

text \<open>
  An ordinary row that is not data: it does not carry the marker and fails the test of
  lines 126 to 130 (fewer than four fields, or a first field that is not all digits).
\<close>

definition non_data_row :: "string list \<Rightarrow> bool" where
  "non_data_row row =
     (\<not> is_marker_row row \<and> (length row < 4 \<or> \<not> isdigit (strip (hd row))))"

section \<open>Formatting integers\<close>

definition digit_chr :: "nat \<Rightarrow> char" where
  "digit_chr d = ''0123456789'' ! d"

fun digits_of :: "nat \<Rightarrow> string" where
  "digits_of n = (if n < 10 then [digit_chr n] else digits_of (n div 10) @ [digit_chr (n mod 10)])"

declare digits_of.simps [simp del]

text \<open>\<open>str(i)\<close> for an integer.\<close>

definition str_int :: "int \<Rightarrow> string" where
  "str_int i = (if i < 0 then ''-'' @ digits_of (nat (- i)) else digits_of (nat i))"

definition zfill :: "nat \<Rightarrow> string \<Rightarrow> string" where
  "zfill w ds = replicate (w - length ds) (CHR ''0'') @ ds"

text \<open>
  The format \<open>{i:03d}\<close>: zeros are put between the sign and the digits up to a total
  width of three characters, so the sign takes one of the three places.
\<close>

definition format_03d :: "int \<Rightarrow> string" where
  "format_03d i =
     (if i < 0 then ''-'' @ zfill 2 (digits_of (nat (- i))) else zfill 3 (digits_of (nat i)))"

text \<open>
  \<open>str.lower()\<close> on the code points up to U+00FF: the letters A to Z and U+00C0 to
  U+00DE without U+00D7 move up by 32. The bit of value 32 is clear in both ranges, so
  adding 32 sets it.
\<close>

definition lower_chr :: "char \<Rightarrow> char" where
  "lower_chr c =
     (let n = code_point c
      in if (65 \<le> n \<and> n \<le> 90) \<or> (192 \<le> n \<and> n \<le> 222 \<and> n \<noteq> 215)
         then (case c of Char b0 b1 b2 b3 b4 b5 b6 b7 \<Rightarrow> Char b0 b1 b2 b3 b4 True b6 b7)
         else c)"

definition lower :: "string \<Rightarrow> string" where
  "lower s = map lower_chr s"

section \<open>The browser window\<close>

text \<open>
  The labels of the region combo box. The separator entries begin with two box-drawing
  characters, which no other label does; \<open>Separator t\<close> is the entry with the text \<open>t\<close>
  between them, so \<open>label.startswith\<close> of the two characters is \<open>is_separator\<close>.
\<close>

datatype region_label = Label string | Separator string

fun is_separator :: "region_label \<Rightarrow> bool" where
  "is_separator (Separator t) = True"
| "is_separator (Label t) = False"

definition REGIONS_SR2030 :: "(region_label \<times> string option) list" where
  "REGIONS_SR2030 =
    [(Label ''All Regions'', None),
     (Label ''*/@ (Global/Export)'', Some ''*''),
     (Separator ''UPPERCASE'', None),
     (Label ''A (South Africa)'', Some ''A''),
     (Label ''B (Argentina)'', Some ''B''),
     (Label ''C (China)'', Some ''C''),
     (Label ''D (Netherlands)'', Some ''D''),
     (Label ''E (Europe/Ireland)'', Some ''E''),
     (Label ''F (France)'', Some ''F''),
     (Label ''G (Germany)'', Some ''G''),
     (Label ''H (Italy)'', Some ''H''),
     (Label ''I (Israel)'', Some ''I''),
     (Label ''J (Japan)'', Some ''J''),
     (Label ''K (South Korea)'', Some ''K''),
     (Label ''L (North Korea)'', Some ''L''),
     (Label ''M (UK/British)'', Some ''M''),
     (Label ''N (Canada)'', Some ''N''),
     (Label ''O (Other)'', Some ''O''),
     (Label ''P (Philippines)'', Some ''P''),
     (Label ''Q (India)'', Some ''Q''),
     (Label ''R (Russia)'', Some ''R''),
     (Label ''S (Sweden)'', Some ''S''),
     (Label ''T (Czech)'', Some ''T''),
     (Label ''U (USA)'', Some ''U''),
     (Label ''V (Taiwan)'', Some ''V''),
     (Label ''W (World Export)'', Some ''W''),
     (Label ''X (Balkans/Yugoslavia)'', Some ''X''),
     (Label ''Y (Singapore)'', Some ''Y''),
     (Label ''Z (Arab)'', Some ''Z''),
     (Separator ''LOWERCASE'', None),
     (Label ''a (Austria)'', Some ''a''),
     (Label ''b (Brazil)'', Some ''b''),
     (Label ''c (Belgium)'', Some ''c''),
     (Label ''d (Denmark)'', Some ''d''),
     (Label ''e (Spain)'', Some ''e''),
     (Label ''f (Finland)'', Some ''f''),
     (Label ''g (Greece)'', Some ''g''),
     (Label ''h (Poland)'', Some ''h''),
     (Label ''i (Iran)'', Some ''i''),
     (Label ''j (Romania)'', Some ''j''),
     (Label ''k (Norway)'', Some ''k''),
     (Label ''l (Indonesia)'', Some ''l''),
     (Label ''m (Pakistan)'', Some ''m''),
     (Label ''n (Australia)'', Some ''n''),
     (Label ''o (E. Europe Generic)'', Some ''o''),
     (Label ''p (Portugal)'', Some ''p''),
     (Label ''q (Iraq)'', Some ''q''),
     (Label ''r (Former Soviet/Belarus)'', Some ''r''),
     (Label ''s (Switzerland)'', Some ''s''),
     (Label ''t (Turkey)'', Some ''t''),
     (Label ''u (Ukraine)'', Some ''u''),
     (Label ''v (Oceania/Pacific)'', Some ''v''),
     (Label ''w (Sub-Saharan Africa)'', Some ''w''),
     (Label ''x (SE Asia Generic)'', Some ''x''),
     (Label ''z (New Zealand)'', Some ''z''),
     (Separator ''OTHER'', None),
     (Label ''Custom...'', Some ''CUSTOM'')]"

definition REGIONS_SRU :: "(region_label \<times> string option) list" where
  "REGIONS_SRU =
    [(Label ''All Regions'', None),
     (Label ''*/@ (Global/Export)'', Some ''*''),
     (Label ''A (South Africa)'', Some ''A''),
     (Label ''B (Brazil/Argentina)'', Some ''B''),
     (Label ''C (China)'', Some ''C''),
     (Label ''D (BeNeLux)'', Some ''D''),
     (Label ''E (Europe/Ireland/Spain/Portugal/Turkey/Greece)'', Some ''E''),
     (Label ''F (France)'', Some ''F''),
     (Label ''G (Germany)'', Some ''G''),
     (Label ''H (Italy)'', Some ''H''),
     (Label ''I (Israel)'', Some ''I''),
     (Label ''J (Japan)'', Some ''J''),
     (Label ''K (South Korea)'', Some ''K''),
     (Label ''L (North Korea)'', Some ''L''),
     (Label ''M (UK/British)'', Some ''M''),
     (Label ''N (Canada/Australia)'', Some ''N''),
     (Label ''O (Other)'', Some ''O''),
     (Label ''Q (India)'', Some ''Q''),
     (Label ''R (Russia/Ukraine/Soviet/Belarus)'', Some ''R''),
     (Label ''S (Sweden/Swiss/Denmark/Norway)'', Some ''S''),
     (Label ''T (Czech/Austria/Yugoslavia/Finland/Poland/Romania)'', Some ''T''),
     (Label ''U (USA)'', Some ''U''),
     (Label ''V (Taiwan/Philippines)'', Some ''V''),
     (Label ''W (World Export)'', Some ''W''),
     (Label ''X (Yugoslav)'', Some ''X''),
     (Label ''Y (Pacific/Singapore)'', Some ''Y''),
     (Label ''Z (Arab/Iran/Iraq/Pakistan)'', Some ''Z''),
     (Separator ''OTHER'', None),
     (Label ''Custom...'', Some ''CUSTOM'')]"

text \<open>The six entries of the sort combo box, in its order.\<close>

datatype sort_choice = ID_up | ID_down | Name_AZ | Name_ZA | Class | Picnum

text \<open>A path is the list of its components; \<open>Path(d) / n\<close> is \<open>[d, n]\<close> and \<open>.name\<close> the last one.\<close>

type_synonym path = "string list"

record list_item =
  item_text :: string
  item_unit :: SimpleUnit
  highlighted :: bool

datatype count_label =
  Units_loaded nat | No_units_with_picnum int | Units_using_picnum nat int

datatype textures_text =
  No_text | Folder_not_found path | Found "string list" | No_textures string
  | Picnum_not_used int

record browser =
  units_loaded :: "SimpleUnit list"
  current_mode :: string
  meshes_path :: string
  search_input :: string
  cat_combo :: string
  sort_combo :: sort_choice
  region_combo :: region_label
  picnum_input :: string
  unit_list :: "list_item list"
  lbl_count :: count_label
  txt_textures :: textures_text
  warnings :: "string list"
  dialogs_shown :: nat

text \<open>
  The region test of \<open>filter_list\<close> (lines 692 to 698): whether the loop skips the unit
  with \<open>continue\<close>. \<open>None\<close> and the empty string are false in \<open>if region_code\<close>.
\<close>

definition region_skips :: "string option \<Rightarrow> SimpleUnit \<Rightarrow> bool" where
  "region_skips region_code u =
     (case region_code of
        None \<Rightarrow> False
      | Some code \<Rightarrow>
          if code = [] then False
          else if code = ''*''
          then \<not> str_in ''*'' (regions u) \<and> \<not> str_in ''@'' (regions u)
          else \<not> str_in code (regions u) \<and> \<not> str_in ''*'' (regions u) \<and>
               \<not> str_in ''@'' (regions u))"

definition region_matches :: "string option \<Rightarrow> SimpleUnit \<Rightarrow> bool" where
  "region_matches region_code u = (\<not> region_skips region_code u)"

text \<open>The filter loop of \<open>filter_list\<close> (lines 686 to 699): the units it appends.\<close>

definition unit_passes :: "string \<Rightarrow> string \<Rightarrow> string option \<Rightarrow> SimpleUnit \<Rightarrow> bool" where
  "unit_passes txt cat region_code u =
     (\<not> (cat \<noteq> ''all'' \<and> category u \<noteq> cat) \<and>
      \<not> (txt \<noteq> [] \<and> \<not> str_in txt (lower (name u)) \<and> \<not> str_in txt (str_int (unit_id u))) \<and>
      \<not> region_skips region_code u)"

text \<open>
  \<open>list.sort\<close> is stable, and with \<open>reverse=True\<close> units with equal keys still keep
  their order.
\<close>

definition sort_reverse :: "('a \<Rightarrow> 'k::linorder) \<Rightarrow> 'a list \<Rightarrow> 'a list" where
  "sort_reverse f xs = rev (sort_key f (rev xs))"

fun sort_units :: "sort_choice \<Rightarrow> SimpleUnit list \<Rightarrow> SimpleUnit list" where
  "sort_units ID_up us = sort_key unit_id us"
| "sort_units ID_down us = sort_reverse unit_id us"
| "sort_units Name_AZ us = sort_key (\<lambda>u. lower (name u)) us"
| "sort_units Name_ZA us = sort_reverse (\<lambda>u. lower (name u)) us"
| "sort_units Class us = sort_key (\<lambda>u. (unit_class u, lower (name u))) us"
| "sort_units Picnum us = sort_key picnum us"

text \<open>
  Lines 685 to 722 of \<open>filter_list\<close>, once the region code is known: filter, sort, then
  clear and fill the list and set the count.
\<close>

definition populate :: "string option \<Rightarrow> browser \<Rightarrow> browser" where
  "populate region_code b =
     (let txt = lower (search_input b);
          cat = lower (cat_combo b);
          filtered = sort_units (sort_combo b)
                       (filter (unit_passes txt cat region_code) (units_loaded b))
      in b\<lparr>unit_list :=
             map (\<lambda>u. \<lparr>item_text = ''['' @ str_int (unit_id u) @ ''] '' @ name u,
                        item_unit = u, highlighted = False\<rparr>) filtered,
           lbl_count := Units_loaded (length filtered)\<rparr>)"

text \<open>
  \<open>region_combo.setCurrentIndex(0)\<close> where the current entry is not the first one: the
  text becomes the first label of either table, and the \<open>currentTextChanged\<close> signal runs
  \<open>filter_list\<close> again, which now finds \<open>All Regions\<close> and no region code.
\<close>

definition reset_region :: "browser \<Rightarrow> browser" where
  "reset_region b = populate None (b\<lparr>region_combo := Label ''All Regions''\<rparr>)"

text \<open>
  \<open>filter_list\<close> (lines 651 to 722). \<open>ask n\<close> is what the user answers to the \<open>n\<close>-th
  custom-region dialog: the text and whether it was accepted.
\<close>

definition filter_list :: "(nat \<Rightarrow> string \<times> bool) \<Rightarrow> browser \<Rightarrow> browser" where
  "filter_list ask b =
     (if is_separator (region_combo b) then reset_region b
      else if region_combo b \<noteq> Label ''All Regions'' then
        (case find (\<lambda>(label, code). label = region_combo b)
                (if current_mode b = ''SRU'' then REGIONS_SRU else REGIONS_SR2030) of
           None \<Rightarrow> populate None b
         | Some (label, code) \<Rightarrow>
             if code = Some ''CUSTOM'' then
               (case ask (dialogs_shown b) of
                  (text, ok) \<Rightarrow>
                    if ok \<and> text \<noteq> []
                    then populate (Some text) (b\<lparr>dialogs_shown := Suc (dialogs_shown b)\<rparr>)
                    else reset_region (b\<lparr>dialogs_shown := Suc (dialogs_shown b)\<rparr>))
             else populate code b)
      else populate None b)"

text \<open>\<open>check_textures\<close> (lines 821 to 854): the text it puts in the textures box.\<close>

definition check_textures :: "(path \<Rightarrow> bool) \<Rightarrow> path \<Rightarrow> int \<Rightarrow> textures_text" where
  "check_textures exists mesh_dir pic =
     (if \<not> exists mesh_dir then Folder_not_found mesh_dir
      else
        let base = ''UNIT'' @ format_03d pic;
            patterns = [base @ ''.dds'', base @ ''.png''] @
              concat (map (\<lambda>c. [base @ [c] @ ''.dds'', base @ [c] @ ''.png''])
                        ''ABCDEFGHIJKLMNOPQRSTUVWXYZ'');
            found = filter (\<lambda>p. exists (mesh_dir @ [p])) patterns
        in if found \<noteq> [] then Found found else No_textures base)"

text \<open>
  \<open>search_by_picnum\<close> (lines 724 to 762). Clearing a non-empty search box and moving
  the category box to its first entry each emit a changed signal, which runs
  \<open>filter_list\<close>. \<open>int\<close> raises nothing but ValueError, which shows the warning box.
\<close>

definition search_by_picnum ::
    "(nat \<Rightarrow> string \<times> bool) \<Rightarrow> (path \<Rightarrow> bool) \<Rightarrow> browser \<Rightarrow> browser" where
  "search_by_picnum ask exists b =
     (let picnum_text = strip (picnum_input b)
      in if picnum_text = [] then b
         else
           (case py_int picnum_text of
              Inl e \<Rightarrow> b\<lparr>warnings := warnings b @ [''Please enter a valid picnum number.'']\<rparr>
            | Inr target_picnum \<Rightarrow>
                let b1 = (if search_input b \<noteq> [] then filter_list ask (b\<lparr>search_input := []\<rparr>)
                          else b);
                    b2 = (if cat_combo b1 \<noteq> ''All'' then filter_list ask (b1\<lparr>cat_combo := ''All''\<rparr>)
                          else b1);
                    found = filter (\<lambda>u. picnum u = target_picnum) (units_loaded b2);
                    b3 = b2\<lparr>unit_list :=
                           map (\<lambda>u. \<lparr>item_text = ''['' @ str_int (unit_id u) @ ''] '' @ name u @
                                        '' (class: '' @ str_int (unit_class u) @ '')'',
                                      item_unit = u, highlighted = True\<rparr>) found\<rparr>
                in if length found = 0
                   then b3\<lparr>lbl_count := No_units_with_picnum target_picnum,
                           txt_textures := Picnum_not_used target_picnum\<rparr>
                   else b3\<lparr>lbl_count := Units_using_picnum (length found) target_picnum,
                           txt_textures := check_textures exists [meshes_path b3] target_picnum\<rparr>))"

text \<open>
  The mesh part of \<open>on_selection_changed\<close> (lines 785 to 815) for the selected unit.
  \<open>probed\<close> lists the paths whose existence was tested, in the order of the tests.
\<close>

datatype mesh_status = MESH_FOUND | ALT_FORMAT_FOUND | MESH_MISSING

record mesh_view =
  status_mesh :: mesh_status
  lbl_mesh_file :: string
  btn_view_enabled :: bool
  selected_mesh_path :: "path option"
  probed :: "path list"

definition on_selection_changed ::
    "(path \<Rightarrow> bool) \<Rightarrow> string \<Rightarrow> string \<Rightarrow> SimpleUnit \<Rightarrow> mesh_view" where
  "on_selection_changed exists mode meshes u =
     (let mesh_dir = [meshes];
          is_sru = (mode = ''SRU'');
          primary_ext = (if is_sru then ''.x'' else ''.cmo'');
          secondary_ext = (if is_sru then ''.cmo'' else ''.x'');
          primary_path = mesh_dir @ [''UNIT'' @ format_03d (picnum u) @ primary_ext];
          secondary_path = mesh_dir @ [''UNIT'' @ format_03d (picnum u) @ secondary_ext]
      in if exists primary_path
         then \<lparr>status_mesh = MESH_FOUND, lbl_mesh_file = last primary_path,
               btn_view_enabled = True, selected_mesh_path = Some primary_path,
               probed = [primary_path]\<rparr>
         else if exists secondary_path
         then \<lparr>status_mesh = ALT_FORMAT_FOUND, lbl_mesh_file = last secondary_path,
               btn_view_enabled = True, selected_mesh_path = Some secondary_path,
               probed = [primary_path, secondary_path]\<rparr>
         else \<lparr>status_mesh = MESH_MISSING,
               lbl_mesh_file = ''UNIT'' @ format_03d (picnum u) @ primary_ext,
               btn_view_enabled = False, selected_mesh_path = None,
               probed = [primary_path, secondary_path]\<rparr>)"

subsection \<open>Example data\<close>

text \<open>Three units, two of which share picnum 450, and a window with every filter set.\<close>

definition example_units :: "SimpleUnit list" where
  "example_units =
     [\<lparr>unit_id = 12, name = ''Leopard'', picnum = 450, unit_class = 3,
       category = ''land'', regions = ''G''\<rparr>,
      \<lparr>unit_id = 5, name = ''Falcon'', picnum = 7, unit_class = 9,
       category = ''air'', regions = ''U''\<rparr>,
      \<lparr>unit_id = 8, name = ''Abrams'', picnum = 450, unit_class = 3,
       category = ''land'', regions = ''U''\<rparr>]"

definition example_browser :: browser where
  "example_browser =
     \<lparr>units_loaded = example_units, current_mode = ''SR2030'', meshes_path = ''Meshes'',
      search_input = ''falcon'', cat_combo = ''Air'', sort_combo = Name_ZA,
      region_combo = Label ''U (USA)'', picnum_input = '' 450 '', unit_list = [],
      lbl_count = Units_loaded 0, txt_textures = No_text, warnings = [], dialogs_shown = 0\<rparr>"

section \<open>Properties of the parser\<close>

lemma py_int_error: "py_int s = Inl e \<Longrightarrow> e = ValueError"
  by (auto simp: py_int_def Let_def split: if_splits)

lemma make_unit_error: "4 \<le> length row \<Longrightarrow> make_unit row = Inl e \<Longrightarrow> e = ValueError"
  unfolding make_unit_def bind_exn_def py_index_def
  by (auto split: sum.splits if_splits dest: py_int_error)

lemma isdigit_not_comment: "isdigit t \<Longrightarrow> \<not> startswith t ''//''"
  by (cases t) (auto simp: isdigit_def isdigit_chr_def code_point_def)

lemma row_step_eq:
  "row_step row s =
     Inr (if is_marker_row row then s\<lparr>start_parsing := True\<rparr>
          else if start_parsing s \<and> 4 \<le> length row \<and> isdigit (strip (hd row))
          then (case make_unit row of Inr u \<Rightarrow> s\<lparr>units := units s @ [u]\<rparr> | Inl e \<Rightarrow> s)
          else s)"
proof (cases "is_marker_row row \<or> \<not> (start_parsing s \<and> 4 \<le> length row \<and> isdigit (strip (hd row)))")
  case True
  then show ?thesis
    by (auto simp: row_step_def is_marker_row_def dest: isdigit_not_comment)
next
  case False
  then have acc: "row \<noteq> []" "\<not> str_in marker (hd row)" "start_parsing s" "4 \<le> length row"
    "isdigit (strip (hd row))"
    by (auto simp: is_marker_row_def)
  show ?thesis
  proof (cases "make_unit row")
    case (Inl e)
    with acc make_unit_error [of row e] show ?thesis
      by (simp add: row_step_def is_marker_row_def isdigit_not_comment)
  next
    case (Inr u)
    with acc show ?thesis
      by (simp add: row_step_def is_marker_row_def isdigit_not_comment)
  qed
qed

lemma rows_loop_no_exn: "snd (rows_loop rows s) = None"
  by (induction rows arbitrary: s) (simp_all add: row_step_eq)

lemma rows_loop_append:
  "rows_loop (xs @ ys) s = rows_loop ys (fst (rows_loop xs s))"
  by (induction xs arbitrary: s) (simp_all add: row_step_eq)

lemma rows_loop_not_started:
  "\<not> start_parsing s \<Longrightarrow> \<forall>row\<in>set rows. \<not> is_marker_row row \<Longrightarrow> rows_loop rows s = (s, None)"
  by (induction rows arbitrary: s) (simp_all add: row_step_eq)

lemma rows_loop_units:
  "u \<in> set (units (fst (rows_loop rows s))) \<Longrightarrow>
     u \<in> set (units s) \<or>
     (\<exists>row\<in>set rows. 4 \<le> length row \<and> isdigit (strip (hd row)) \<and> make_unit row = Inr u)"
proof (induction rows arbitrary: s)
  case Nil
  then show ?case by simp
next
  case (Cons row rest)
  from Cons.prems Cons.IH show ?case
    by (fastforce simp: row_step_eq split: if_splits sum.splits)
qed

lemma parse_lines_state:
  "fst (parse_lines lines) = fst (rows_loop (fst (csv_reader lines)) initial_state)"
  by (simp add: parse_lines_def split: prod.splits option.splits)

lemma parse_file:
  "fs filepath = Some (TextFile lines) \<Longrightarrow>
     parse_units_robust fs filepath =
       Inr (units (fst (rows_loop (fst (csv_reader lines)) initial_state)))"
  by (simp add: parse_units_robust_def parse_lines_state [symmetric] split: prod.splits)

lemma parsed_unit_row:
  assumes "parse_units_robust fs filepath = Inr us" and "u \<in> set us"
  shows "\<exists>lines. fs filepath = Some (TextFile lines) \<and>
           (\<exists>row\<in>set (fst (csv_reader lines)).
              4 \<le> length row \<and> isdigit (strip (hd row)) \<and> make_unit row = Inr u)"
proof (cases "fs filepath")
  case None
  with assms show ?thesis by (simp add: parse_units_robust_def)
next
  case (Some node)
  show ?thesis
  proof (cases node)
    case (TextFile lines)
    with Some have f: "fs filepath = Some (TextFile lines)" by simp
    from assms parse_file [of fs filepath lines, OF f]
    have "u \<in> set (units (fst (rows_loop (fst (csv_reader lines)) initial_state)))" by simp
    from rows_loop_units [OF this] f show ?thesis by (simp add: initial_state_def)
  next
    case Unreadable
    with Some assms show ?thesis by (simp add: parse_units_robust_def initial_state_def)
  qed
qed

lemma strip_hd: "strip s \<noteq> [] \<Longrightarrow> \<not> isspace_chr (hd (strip s))"
proof -
  assume ne: "strip s \<noteq> []"
  define a where "a = dropWhile isspace_chr s"
  define d where "d = dropWhile isspace_chr (rev a)"
  have t: "strip s = rev d" by (simp add: strip_def a_def d_def)
  from ne t have "d \<noteq> []" by simp
  then have "a \<noteq> []" by (auto simp: d_def)
  then have na: "\<not> isspace_chr (hd a)" unfolding a_def by (rule hd_dropWhile)
  from \<open>a \<noteq> []\<close> have "hd a \<in> set (rev a)" by simp
  from dropWhile_last [of "hd a" "rev a" isspace_chr, OF this na] have "last d = hd a"
    using \<open>a \<noteq> []\<close> by (simp add: d_def last_rev)
  with \<open>d \<noteq> []\<close> na show ?thesis by (simp add: t hd_rev)
qed

lemma strip_last: "strip s \<noteq> [] \<Longrightarrow> \<not> isspace_chr (last (strip s))"
proof -
  assume ne: "strip s \<noteq> []"
  define d where "d = dropWhile isspace_chr (rev (dropWhile isspace_chr s))"
  have t: "strip s = rev d" by (simp add: strip_def d_def)
  from ne t have "d \<noteq> []" by simp
  then have "\<not> isspace_chr (hd d)" unfolding d_def by (rule hd_dropWhile)
  with \<open>d \<noteq> []\<close> show ?thesis by (simp add: t last_rev)
qed

lemma dropWhile_hd: "xs \<noteq> [] \<Longrightarrow> \<not> P (hd xs) \<Longrightarrow> dropWhile P xs = xs"
  by (cases xs) simp_all

lemma strip_fixed:
  assumes "t = [] \<or> (\<not> isspace_chr (hd t) \<and> \<not> isspace_chr (last t))"
  shows "strip t = t"
proof (cases t)
  case Nil
  then show ?thesis by (simp add: strip_def)
next
  case (Cons c cs)
  with assms have h: "\<not> isspace_chr c" and l: "\<not> isspace_chr (last t)" by simp_all
  from h Cons have 1: "dropWhile isspace_chr t = t" by simp
  from Cons have "rev t \<noteq> []" by simp
  moreover from Cons have "hd (rev t) = last t" by (simp add: hd_rev)
  ultimately have 2: "dropWhile isspace_chr (rev t) = rev t"
    using l by (simp add: dropWhile_hd)
  show ?thesis by (simp add: strip_def 1 2)
qed

lemma strip_idem: "strip (strip s) = strip s"
  by (rule strip_fixed) (use strip_hd strip_last in blast)

lemma literal_value_nonneg: "0 \<le> literal_value body"
proof -
  have "0 \<le> a \<Longrightarrow> 0 \<le> foldl (\<lambda>a c. 10 * a + digit_value c) a cs" for a cs
    by (induction cs arbitrary: a) (simp_all add: digit_value_def)
  then show ?thesis by (simp add: literal_value_def)
qed

lemma strip_no_leading_space: "dropWhile int_space_chr (strip s) = strip s"
proof (cases "strip s")
  case Nil
  then show ?thesis by simp
next
  case (Cons c cs)
  with strip_hd [of s] have "\<not> isspace_chr c" by simp
  then have "\<not> int_space_chr c" by (auto simp: isspace_chr_def int_space_chr_def Let_def)
  with Cons show ?thesis by simp
qed

lemma py_int_nonneg:
  "py_int (strip s) = Inr v \<Longrightarrow> \<not> startswith (strip s) ''-'' \<Longrightarrow> 0 \<le> v"
  by (auto simp: py_int_def Let_def strip_no_leading_space literal_value_nonneg split: if_splits)

lemma make_unit_fields:
  assumes "make_unit row = Inr u" and "4 \<le> length row"
  shows "name u = strip (row ! 1)" and "category u = category_of (unit_class u)"
    and "\<not> startswith (strip (row ! 3)) ''-'' \<Longrightarrow> 0 \<le> picnum u"
  using assms unfolding make_unit_def bind_exn_def py_index_def
  by (auto split: sum.splits if_splits dest: py_int_nonneg)


subsection \<open>Evaluation on concrete inputs\<close>

lemmas csv_eval = csv_reader_def parse_reset_def process_line_def parse_process_char_def
  start_field_def end_of_line_def parse_add_char_def parse_save_field_def bind_exn_def
  is_newline_def field_limit_def

lemmas parse_eval = csv_eval parse_units_robust_def parse_lines_def initial_state_def
  row_step_def make_unit_def py_index_def py_int_def strip_def isdigit_def isdigit_chr_def
  isspace_chr_def int_space_chr_def is_decimal_chr_def code_point_def literal_value_def
  digit_value_def int_max_str_digits_def category_of_def marker_def is_marker_row_def

lemmas weak_congs = sum.case_cong_weak option.case_cong_weak prod.case_cong_weak
  parser_state.case_cong_weak exn.case_cong_weak list.case_cong_weak fs_node.case_cong_weak

lemma replicate_numeral: "replicate (numeral k) x = x # replicate (pred_numeral k) x"
  by (simp add: numeral_eq_Suc)

section \<open>The claims about the parser\<close>

text \<open>
  Claim C1. When no row that the reader yields has the marker in its first field,
  \<open>parse_units_robust\<close> returns the empty list, whatever the rows hold.
\<close>

theorem no_marker_no_units:
  assumes "fs filepath = Some (TextFile lines)"
    and "\<forall>row\<in>set (fst (csv_reader lines)). row \<noteq> [] \<longrightarrow> \<not> str_in marker (hd row)"
  shows "parse_units_robust fs filepath = Inr []"
proof -
  from assms(2) have "\<forall>row\<in>set (fst (csv_reader lines)). \<not> is_marker_row row"
    by (auto simp: is_marker_row_def)
  then have "rows_loop (fst (csv_reader lines)) initial_state = (initial_state, None)"
    by (intro rows_loop_not_started) (simp_all add: initial_state_def)
  with parse_file [of fs filepath lines, OF assms(1)] show ?thesis
    by (simp add: initial_state_def)
qed

text \<open>A file of two lines without the marker, the second a well-formed data row.\<close>

theorem no_marker_no_units_witness:
  "fst (csv_reader [''// units\<newline>'', ''1,Tank,3,450,,,,,,,,,G\<newline>''])
     = [[''// units''],
        [''1'', ''Tank'', ''3'', ''450'', [], [], [], [], [], [], [], [], ''G'']] \<and>
   parse_units_robust
     (\<lambda>p. if p = ''default.unit''
          then Some (TextFile [''// units\<newline>'', ''1,Tank,3,450,,,,,,,,,G\<newline>'']) else None)
     ''default.unit'' = Inr []"
proof -
  have r: "fst (csv_reader [''// units\<newline>'', ''1,Tank,3,450,,,,,,,,,G\<newline>''])
      = [[''// units''],
         [''1'', ''Tank'', ''3'', ''450'', [], [], [], [], [], [], [], [], ''G'']]"
    by (simp add: csv_eval cong: weak_congs)
  have h: "\<forall>row\<in>set (fst (csv_reader [''// units\<newline>'', ''1,Tank,3,450,,,,,,,,,G\<newline>''])).
      row \<noteq> [] \<longrightarrow> \<not> str_in marker (hd row)"
    unfolding r by (simp add: marker_def)
  show ?thesis
    using r h no_marker_no_units [of "\<lambda>p. if p = ''default.unit''
          then Some (TextFile [''// units\<newline>'', ''1,Tank,3,450,,,,,,,,,G\<newline>'']) else None"
        "''default.unit''" "[''// units\<newline>'', ''1,Tank,3,450,,,,,,,,,G\<newline>'']"]
    by simp
qed

text \<open>
  Claim C2. In every unit that \<open>parse_units_robust\<close> returns, the category is the
  value of the three-tier rule on the class code: \<open>land\<close> exactly up to 6, \<open>air\<close>
  exactly from 7 to 12, \<open>naval\<close> exactly above 12.
\<close>

theorem category_from_class:
  assumes "parse_units_robust fs filepath = Inr us" and "u \<in> set us"
  shows "category u = category_of (unit_class u) \<and>
         (category u = ''land'' \<longleftrightarrow> unit_class u \<le> 6) \<and>
         (category u = ''air'' \<longleftrightarrow> 6 < unit_class u \<and> unit_class u \<le> 12) \<and>
         (category u = ''naval'' \<longleftrightarrow> 12 < unit_class u)"
proof -
  from parsed_unit_row [OF assms] obtain row where "4 \<le> length row" "make_unit row = Inr u"
    by blast
  then have "category u = category_of (unit_class u)" by (simp add: make_unit_fields)
  then show ?thesis by (simp add: category_of_def)
qed

text \<open>A file with one data row of class 9.\<close>

theorem category_from_class_witness:
  "parse_units_robust
     (\<lambda>p. if p = ''default.unit''
          then Some (TextFile [''&&UNITS\<newline>'', ''7,Falcon,9,120\<newline>'']) else None)
     ''default.unit''
     = Inr [\<lparr>unit_id = 7, name = ''Falcon'', picnum = 120, unit_class = 9,
             category = ''air'', regions = ''''\<rparr>] \<and>
   category \<lparr>unit_id = 7, name = ''Falcon'', picnum = 120, unit_class = 9,
             category = ''air'', regions = ''''\<rparr> = ''air'' \<and> (6::int) < 9 \<and> (9::int) \<le> 12"
proof -
  have h: "parse_units_robust
     (\<lambda>p. if p = ''default.unit''
          then Some (TextFile [''&&UNITS\<newline>'', ''7,Falcon,9,120\<newline>'']) else None)
     ''default.unit''
     = Inr [\<lparr>unit_id = 7, name = ''Falcon'', picnum = 120, unit_class = 9,
             category = ''air'', regions = ''''\<rparr>]"
    by (simp add: parse_eval cong: weak_congs)
  from category_from_class [OF h, of "\<lparr>unit_id = 7, name = ''Falcon'', picnum = 120, unit_class = 9,
             category = ''air'', regions = ''''\<rparr>"] h
  show ?thesis by simp
qed

text \<open>
  Claim C3. With the marker already seen, the row \<open>42,TestUnit,3,450,,,,,,,,,G\<close> gives
  exactly one unit: id 42, name \<open>TestUnit\<close>, class code 3, picnum 450, category
  \<open>land\<close>, regions \<open>G\<close>; and no exception ends the loop.
\<close>

theorem hand_built_row:
  "rows_loop (fst (csv_reader [''42,TestUnit,3,450,,,,,,,,,G'']))
     \<lparr>units = [], start_parsing = True\<rparr>
   = (\<lparr>units = [\<lparr>unit_id = 42, name = ''TestUnit'', picnum = 450, unit_class = 3,
                   category = ''land'', regions = ''G''\<rparr>],
       start_parsing = True\<rparr>, None)"
  by (simp add: parse_eval cong: weak_congs)

text \<open>
  Claim C6. \<open>parse_units_robust\<close> always returns a list; for a path that does not
  exist the list is empty. No exception leaves the row loop, and a row with fewer than
  four fields, with a first field that is not all digits, or with a failing conversion
  adds no unit: the loop goes on with the rows after it (a row with the marker in its
  first field still switches parsing on).
\<close>

theorem parse_never_raises:
  "(\<exists>us. parse_units_robust fs filepath = Inr us) \<and>
   (fs filepath = None \<longrightarrow> parse_units_robust fs filepath = Inr []) \<and>
   snd (rows_loop rows s) = None \<and>
   (length row < 4 \<or> \<not> isdigit (strip (hd row)) \<or> (\<exists>e. make_unit row = Inl e) \<longrightarrow>
      rows_loop (row # rest) s =
        rows_loop rest (s\<lparr>start_parsing := start_parsing s \<or> is_marker_row row\<rparr>))"
proof (intro conjI impI)
  show "\<exists>us. parse_units_robust fs filepath = Inr us"
    by (simp add: parse_units_robust_def split: option.split fs_node.split prod.split)
  show "parse_units_robust fs filepath = Inr []" if "fs filepath = None"
    using that by (simp add: parse_units_robust_def)
  show "snd (rows_loop rows s) = None"
    by (rule rows_loop_no_exn)
  show "rows_loop (row # rest) s =
      rows_loop rest (s\<lparr>start_parsing := start_parsing s \<or> is_marker_row row\<rparr>)"
    if bad: "length row < 4 \<or> \<not> isdigit (strip (hd row)) \<or> (\<exists>e. make_unit row = Inl e)"
  proof -
    have "row_step row s = Inr (s\<lparr>start_parsing := start_parsing s \<or> is_marker_row row\<rparr>)"
      using bad by (cases s) (auto simp: row_step_eq)
    then show ?thesis by simp
  qed
qed

text \<open>A missing file, and a row whose class field is not a number before a good row.\<close>

theorem parse_never_raises_witness:
  "parse_units_robust (\<lambda>p. None) ''missing.unit'' = Inr [] \<and>
   make_unit [''7'', ''Jeep'', ''x'', ''12''] = Inl ValueError \<and>
   rows_loop [[''7'', ''Jeep'', ''x'', ''12''], [''8'', ''Tank'', ''3'', ''450'']]
       \<lparr>units = [], start_parsing = True\<rparr>
     = (\<lparr>units = [\<lparr>unit_id = 8, name = ''Tank'', picnum = 450, unit_class = 3,
                     category = ''land'', regions = ''''\<rparr>],
         start_parsing = True\<rparr>, None)"
proof -
  have bad: "make_unit [''7'', ''Jeep'', ''x'', ''12''] = Inl ValueError"
    by (simp add: parse_eval cong: weak_congs)
  have nm: "\<not> is_marker_row [''7'', ''Jeep'', ''x'', ''12'']"
    by (simp add: parse_eval)
  have rest: "rows_loop [[''8'', ''Tank'', ''3'', ''450'']] \<lparr>units = [], start_parsing = True\<rparr>
     = (\<lparr>units = [\<lparr>unit_id = 8, name = ''Tank'', picnum = 450, unit_class = 3,
                     category = ''land'', regions = ''''\<rparr>],
         start_parsing = True\<rparr>, None)"
    by (simp add: parse_eval cong: weak_congs)
  from parse_never_raises [of "\<lambda>p. None" "''missing.unit''" "[]"
      "\<lparr>units = [], start_parsing = True\<rparr>" "[''7'', ''Jeep'', ''x'', ''12'']"
      "[[''8'', ''Tank'', ''3'', ''450'']]"] bad nm rest
  show ?thesis by simp
qed

text \<open>
  Claim C7 says that every parsed unit has a non-empty name. A data row with an empty
  second field is accepted, and its unit has the empty name.
\<close>

theorem empty_name_counterexample:
  "parse_units_robust
     (\<lambda>p. if p = ''default.unit''
          then Some (TextFile [''&&UNITS\<newline>'', ''1,,3,4\<newline>'']) else None)
     ''default.unit''
   = Inr [\<lparr>unit_id = 1, name = '''', picnum = 4, unit_class = 3,
            category = ''land'', regions = ''''\<rparr>]"
  by (simp add: parse_eval cong: weak_congs)

text \<open>
  Claim C7, amended. In every unit that \<open>parse_units_robust\<close> returns, the name is
  trimmed: stripping it again changes nothing. It may be empty.
\<close>

theorem name_is_trimmed:
  assumes "parse_units_robust fs filepath = Inr us" and "u \<in> set us"
  shows "strip (name u) = name u"
proof -
  from parsed_unit_row [OF assms] obtain row where "4 \<le> length row" "make_unit row = Inr u"
    by blast
  then have "name u = strip (row ! 1)" by (simp add: make_unit_fields)
  then show ?thesis by (simp add: strip_idem)
qed

text \<open>A data row whose name field has spaces around it.\<close>

theorem name_is_trimmed_witness:
  "parse_units_robust
     (\<lambda>p. if p = ''default.unit''
          then Some (TextFile [''&&UNITS\<newline>'', ''5,  M1 Abrams ,3,450\<newline>'']) else None)
     ''default.unit''
     = Inr [\<lparr>unit_id = 5, name = ''M1 Abrams'', picnum = 450, unit_class = 3,
             category = ''land'', regions = ''''\<rparr>] \<and>
   strip ''M1 Abrams'' = ''M1 Abrams''"
proof -
  have h: "parse_units_robust
     (\<lambda>p. if p = ''default.unit''
          then Some (TextFile [''&&UNITS\<newline>'', ''5,  M1 Abrams ,3,450\<newline>'']) else None)
     ''default.unit''
     = Inr [\<lparr>unit_id = 5, name = ''M1 Abrams'', picnum = 450, unit_class = 3,
             category = ''land'', regions = ''''\<rparr>]"
    by (simp add: parse_eval cong: weak_congs)
  from name_is_trimmed [OF h, of "\<lparr>unit_id = 5, name = ''M1 Abrams'', picnum = 450,
      unit_class = 3, category = ''land'', regions = ''''\<rparr>"] h
  show ?thesis by simp
qed

text \<open>
  Claim C8 says that every parsed unit has a picnum of at least 0. Only the first field
  is tested for digits; \<open>int\<close> accepts a sign in the fourth, so the row
  \<open>1,Tank,3,-5\<close> gives a unit with picnum \<open>-5\<close>.
\<close>

theorem negative_picnum_counterexample:
  "parse_units_robust
     (\<lambda>p. if p = ''default.unit''
          then Some (TextFile [''&&UNITS\<newline>'', ''1,Tank,3,-5\<newline>'']) else None)
     ''default.unit''
   = Inr [\<lparr>unit_id = 1, name = ''Tank'', picnum = - 5, unit_class = 3,
            category = ''land'', regions = ''''\<rparr>]"
  by (simp add: parse_eval cong: weak_congs)

text \<open>
  Claim C8, amended. Every unit that \<open>parse_units_robust\<close> returns comes from a row
  of the file with at least four fields, and its picnum is at least 0 unless the fourth
  field of that row, trimmed, begins with a minus sign.
\<close>

theorem picnum_sign:
  assumes "parse_units_robust fs filepath = Inr us" and "u \<in> set us"
  shows "\<exists>lines. fs filepath = Some (TextFile lines) \<and>
           (\<exists>row\<in>set (fst (csv_reader lines)).
              4 \<le> length row \<and> make_unit row = Inr u \<and>
              (\<not> startswith (strip (row ! 3)) ''-'' \<longrightarrow> 0 \<le> picnum u))"
proof -
  from parsed_unit_row [OF assms] obtain lines row where
    "fs filepath = Some (TextFile lines)" "row \<in> set (fst (csv_reader lines))"
    "4 \<le> length row" "make_unit row = Inr u"
    by blast
  with make_unit_fields(3) [of row u] show ?thesis by blast
qed

text \<open>A data row whose picnum field is \<open>450\<close> between spaces.\<close>

theorem picnum_sign_witness:
  "parse_units_robust
     (\<lambda>p. if p = ''default.unit''
          then Some (TextFile [''&&UNITS\<newline>'', ''5,Tank,3, 450 \<newline>'']) else None)
     ''default.unit''
     = Inr [\<lparr>unit_id = 5, name = ''Tank'', picnum = 450, unit_class = 3,
             category = ''land'', regions = ''''\<rparr>] \<and>
   \<not> startswith (strip '' 450 '') ''-'' \<and> (0::int) \<le> 450"
proof -
  have h: "parse_units_robust
     (\<lambda>p. if p = ''default.unit''
          then Some (TextFile [''&&UNITS\<newline>'', ''5,Tank,3, 450 \<newline>'']) else None)
     ''default.unit''
     = Inr [\<lparr>unit_id = 5, name = ''Tank'', picnum = 450, unit_class = 3,
             category = ''land'', regions = ''''\<rparr>]"
    by (simp add: parse_eval cong: weak_congs)
  have n: "\<not> startswith (strip '' 450 '') ''-''"
    by (simp add: parse_eval)
  from picnum_sign [OF h, of "\<lparr>unit_id = 5, name = ''Tank'', picnum = 450,
      unit_class = 3, category = ''land'', regions = ''''\<rparr>"] h n
  show ?thesis by simp
qed

lemma started_marker_step: "start_parsing s \<Longrightarrow> is_marker_row r \<Longrightarrow> row_step r s = Inr s"
  by (cases s) (simp add: row_step_eq)

lemma non_data_step: "non_data_row r \<Longrightarrow> row_step r s = Inr s"
  by (auto simp: row_step_eq non_data_row_def)

lemma row_step_keeps_started: "start_parsing s \<Longrightarrow> row_step r s = Inr s' \<Longrightarrow> start_parsing s'"
  by (auto simp: row_step_eq split: if_splits sum.splits)

lemma later_markers_loop:
  "list_all2 (\<lambda>r r'. if is_marker_row r then non_data_row r' else r' = r) post post' \<Longrightarrow>
     start_parsing s \<Longrightarrow> rows_loop post s = rows_loop post' s"
proof (induction post post' arbitrary: s rule: list_all2_induct)
  case Nil
  then show ?case by simp
next
  case (Cons r post r' post')
  show ?case
  proof (cases "is_marker_row r")
    case True
    with Cons.hyps have "non_data_row r'" by simp
    with True Cons.prems Cons.IH [of s] show ?thesis
      by (simp add: started_marker_step non_data_step)
  next
    case False
    with Cons.hyps have eq: "r' = r" by simp
    obtain s' where s': "row_step r s = Inr s'" by (simp add: row_step_eq)
    with Cons.prems have "start_parsing s'" by (rule row_step_keeps_started)
    with Cons.IH [of s'] s' eq show ?thesis by simp
  qed
qed

text \<open>
  Claim C9. After a marker row, every later row with the marker in its first field can
  be replaced by an ordinary row that is not data, and the loop ends in the same state:
  such a row adds no unit and changes nothing for the other rows. The first marker row
  is where data begins: when no row before it has the marker, the loop from the start
  ends as the loop over the rows after it does with parsing switched on.
\<close>

theorem later_markers_inert:
  assumes "is_marker_row m"
    and "list_all2 (\<lambda>r r'. if is_marker_row r then non_data_row r' else r' = r) post post'"
  shows "rows_loop (pre @ m # post) s = rows_loop (pre @ m # post') s \<and>
         ((\<forall>r\<in>set pre. \<not> is_marker_row r) \<longrightarrow>
            rows_loop (pre @ m # post) initial_state
              = rows_loop post (initial_state\<lparr>start_parsing := True\<rparr>))"
proof
  obtain s1 where s1: "row_step m (fst (rows_loop pre s)) = Inr s1" by (simp add: row_step_eq)
  with assms(1) have "start_parsing s1" by (auto simp: row_step_eq)
  from later_markers_loop [OF assms(2) this] s1
  show "rows_loop (pre @ m # post) s = rows_loop (pre @ m # post') s"
    by (simp add: rows_loop_append)
  show "(\<forall>r\<in>set pre. \<not> is_marker_row r) \<longrightarrow>
      rows_loop (pre @ m # post) initial_state
        = rows_loop post (initial_state\<lparr>start_parsing := True\<rparr>)"
  proof
    assume "\<forall>r\<in>set pre. \<not> is_marker_row r"
    then have "rows_loop pre initial_state = (initial_state, None)"
      by (intro rows_loop_not_started) (simp_all add: initial_state_def)
    with assms(1) show "rows_loop (pre @ m # post) initial_state
        = rows_loop post (initial_state\<lparr>start_parsing := True\<rparr>)"
      by (simp add: rows_loop_append row_step_eq)
  qed
qed

text \<open>
  A data-like row before the first marker, and a second marker row between two data
  rows, against a comment row in its place.
\<close>

theorem later_markers_inert_witness:
  "is_marker_row [''&&UNITS''] \<and>
   list_all2 (\<lambda>r r'. if is_marker_row r then non_data_row r' else r' = r)
     [[''1'', ''Tank'', ''3'', ''450''], [''&&UNITS''], [''2'', ''Jeep'', ''1'', ''7'']]
     [[''1'', ''Tank'', ''3'', ''450''], [''// more''], [''2'', ''Jeep'', ''1'', ''7'']] \<and>
   rows_loop ([[''9'', ''Early'', ''3'', ''1'']] @ [''&&UNITS''] #
       [[''1'', ''Tank'', ''3'', ''450''], [''&&UNITS''], [''2'', ''Jeep'', ''1'', ''7'']])
     initial_state
   = rows_loop ([[''9'', ''Early'', ''3'', ''1'']] @ [''&&UNITS''] #
       [[''1'', ''Tank'', ''3'', ''450''], [''// more''], [''2'', ''Jeep'', ''1'', ''7'']])
     initial_state \<and>
   rows_loop ([[''9'', ''Early'', ''3'', ''1'']] @ [''&&UNITS''] #
       [[''1'', ''Tank'', ''3'', ''450''], [''&&UNITS''], [''2'', ''Jeep'', ''1'', ''7'']])
     initial_state
   = rows_loop [[''1'', ''Tank'', ''3'', ''450''], [''&&UNITS''], [''2'', ''Jeep'', ''1'', ''7'']]
       (initial_state\<lparr>start_parsing := True\<rparr>)"
proof -
  have m: "is_marker_row [''&&UNITS'']"
    by (simp add: parse_eval)
  have r: "list_all2 (\<lambda>r r'. if is_marker_row r then non_data_row r' else r' = r)
     [[''1'', ''Tank'', ''3'', ''450''], [''&&UNITS''], [''2'', ''Jeep'', ''1'', ''7'']]
     [[''1'', ''Tank'', ''3'', ''450''], [''// more''], [''2'', ''Jeep'', ''1'', ''7'']]"
    by (simp add: parse_eval non_data_row_def)
  have p: "\<forall>r\<in>set [[''9'', ''Early'', ''3'', ''1'']]. \<not> is_marker_row r"
    by (simp add: parse_eval)
  from later_markers_inert [OF m r, of "[[''9'', ''Early'', ''3'', ''1'']]" initial_state] m r p
  show ?thesis by (intro conjI) blast+
qed

section \<open>The claims about the browser window\<close>

text \<open>\<open>lower\<close> and the sort by name on examples.\<close>

lemma lower_examples:
  "lower ''M1 Abrams [Z]'' = ''m1 abrams [z]''"
  "lower [CHR 0xC0, CHR 0xDE, CHR 0xD7, CHR 0xDF, CHR 0xE9]
     = [CHR 0xE0, CHR 0xFE, CHR 0xD7, CHR 0xDF, CHR 0xE9]"
  by (simp_all add: lower_def lower_chr_def code_point_def)

lemma sort_name_ignores_case:
  "map unit_id (sort_units Name_AZ
     [\<lparr>unit_id = 2, name = ''Bravo'', picnum = 0, unit_class = 0, category = ''land'',
        regions = []\<rparr>,
      \<lparr>unit_id = 1, name = ''alpha'', picnum = 0, unit_class = 0, category = ''land'',
        regions = []\<rparr>]) = [1, 2]"
  by (simp add: lower_def lower_chr_def code_point_def less_char_def less_eq_char_def)

lemma startswith_prefix: "startswith s p \<longleftrightarrow> prefix p s"
  by (induction s p rule: startswith.induct) auto

lemma str_in_sublist: "str_in p s \<longleftrightarrow> sublist p s"
  by (induction s) (simp_all add: startswith_prefix sublist_Cons_right)

lemma str_in_single: "str_in [c] s \<longleftrightarrow> c \<in> set s"
  by (induction s) auto

text \<open>
  Claim C4. The region test of \<open>filter_list\<close> keeps a unit under the code \<open>*\<close>
  exactly when its region codes contain \<open>*\<close> or \<open>@\<close>, and under any code exactly
  when the code occurs in its region codes as a substring, or they contain \<open>*\<close> or
  \<open>@\<close>; characters are compared as they are, so case matters. With no search text
  and category \<open>all\<close> the test alone decides whether the unit is listed. A unit with
  region codes \<open>*\<close> matches \<open>U\<close> and \<open>*\<close>; one with \<open>G\<close> matches \<open>G\<close> but
  neither \<open>U\<close> nor \<open>g\<close>.
\<close>

theorem region_filter_matches:
  "(region_matches (Some ''*'') u \<longleftrightarrow>
      CHR ''*'' \<in> set (regions u) \<or> CHR ''@'' \<in> set (regions u)) \<and>
   (region_matches (Some code) u \<longleftrightarrow>
      sublist code (regions u) \<or> CHR ''*'' \<in> set (regions u) \<or> CHR ''@'' \<in> set (regions u)) \<and>
   (unit_passes [] ''all'' (Some code) u \<longleftrightarrow> region_matches (Some code) u) \<and>
   region_matches (Some ''U'') (u\<lparr>regions := ''*''\<rparr>) \<and>
   region_matches (Some ''*'') (u\<lparr>regions := ''*''\<rparr>) \<and>
   region_matches (Some ''G'') (u\<lparr>regions := ''G''\<rparr>) \<and>
   \<not> region_matches (Some ''U'') (u\<lparr>regions := ''G''\<rparr>) \<and>
   \<not> region_matches (Some ''g'') (u\<lparr>regions := ''G''\<rparr>)"
proof -
  have star: "region_matches (Some ''*'') v \<longleftrightarrow>
      CHR ''*'' \<in> set (regions v) \<or> CHR ''@'' \<in> set (regions v)" for v
    by (simp add: region_matches_def region_skips_def str_in_single)
  have any: "region_matches (Some c) v \<longleftrightarrow>
      sublist c (regions v) \<or> CHR ''*'' \<in> set (regions v) \<or> CHR ''@'' \<in> set (regions v)" for c v
  proof (cases "c = ''*''")
    case True
    have "sublist ''*'' (regions v) \<longleftrightarrow> CHR ''*'' \<in> set (regions v)"
      using str_in_single [of "CHR ''*''" "regions v"] str_in_sublist [of "''*''" "regions v"]
      by simp
    with True show ?thesis by (auto simp: star)
  next
    case False
    have sub: "str_in c r \<longleftrightarrow> sublist c r" for r
      by (rule str_in_sublist)
    from False show ?thesis
      by (auto simp: region_matches_def region_skips_def str_in_single sub)
  qed
  have pass: "unit_passes [] ''all'' rc v \<longleftrightarrow> region_matches rc v" for rc v
    by (simp add: unit_passes_def region_matches_def)
  show ?thesis
    by (simp add: star any [of code u] pass)
      (simp add: region_matches_def region_skips_def)
qed

lemma py_int_Nil: "py_int [] = Inl ValueError"
  by (simp add: py_int_def)

lemma populate_units: "units_loaded (populate rc b) = units_loaded b"
  by (simp add: populate_def Let_def)

lemma filter_list_units: "units_loaded (filter_list ask b) = units_loaded b"
  by (simp add: filter_list_def reset_region_def populate_units split: option.split prod.split)

text \<open>
  Claim C10, amended. For a query that \<open>int\<close> accepts, \<open>search_by_picnum\<close> lists
  exactly the loaded units with that picnum, in the order of \<open>units_loaded\<close>: the
  search text, the category, the region and the sort entry have no part in the result.
  A query that is not empty after trimming and that \<open>int\<close> rejects adds the warning and
  changes nothing else. A query that is empty after trimming changes nothing at all.
\<close>

theorem picnum_lookup:
  "(py_int (strip (picnum_input b)) = Inr target \<longrightarrow>
      map item_unit (unit_list (search_by_picnum ask exists b))
        = filter (\<lambda>u. picnum u = target) (units_loaded b)) \<and>
   (strip (picnum_input b) \<noteq> [] \<and> py_int (strip (picnum_input b)) = Inl e \<longrightarrow>
      search_by_picnum ask exists b
        = b\<lparr>warnings := warnings b @ [''Please enter a valid picnum number.'']\<rparr>) \<and>
   (strip (picnum_input b) = [] \<longrightarrow> search_by_picnum ask exists b = b)"
proof (intro conjI impI)
  assume ok: "py_int (strip (picnum_input b)) = Inr target"
  then have ne: "strip (picnum_input b) \<noteq> []" by (auto simp: py_int_Nil)
  show "map item_unit (unit_list (search_by_picnum ask exists b))
        = filter (\<lambda>u. picnum u = target) (units_loaded b)"
    using ok ne by (simp add: search_by_picnum_def Let_def filter_list_units comp_def)
next
  assume "strip (picnum_input b) \<noteq> [] \<and> py_int (strip (picnum_input b)) = Inl e"
  then show "search_by_picnum ask exists b
        = b\<lparr>warnings := warnings b @ [''Please enter a valid picnum number.'']\<rparr>"
    by (simp add: search_by_picnum_def)
next
  assume "strip (picnum_input b) = []"
  then show "search_by_picnum ask exists b = b"
    by (simp add: search_by_picnum_def)
qed

lemma digit_chr_decimal: "d < 10 \<Longrightarrow> is_decimal_chr (digit_chr d) \<and> digit_value (digit_chr d) = int d"
proof -
  assume "d < 10"
  then have "d \<in> {0, 1, 2, 3, 4, 5, 6, 7, 8, 9}" by auto
  then show ?thesis
    by (auto simp: digit_chr_def is_decimal_chr_def digit_value_def code_point_def)
qed

lemma digit_chr_zero: "d < 10 \<Longrightarrow> digit_chr d = CHR ''0'' \<longleftrightarrow> d = 0"
proof -
  assume "d < 10"
  then have "d \<in> {0, 1, 2, 3, 4, 5, 6, 7, 8, 9}" by auto
  then show ?thesis
    by (auto simp: digit_chr_def)
qed

lemma digits_of_nonempty: "digits_of n \<noteq> []"
  by (subst digits_of.simps) simp

lemma digits_of_decimal: "list_all is_decimal_chr (digits_of n)"
proof (induction n rule: digits_of.induct)
  case (1 n)
  show ?case
  proof (cases "n < 10")
    case True
    then show ?thesis by (subst digits_of.simps) (simp add: digit_chr_decimal)
  next
    case False
    with "1.IH" show ?thesis
      by (subst digits_of.simps) (simp add: digit_chr_decimal)
  qed
qed

lemma literal_value_snoc:
  "is_decimal_chr c \<Longrightarrow> literal_value (xs @ [c]) = 10 * literal_value xs + digit_value c"
  by (simp add: literal_value_def)

lemma literal_value_digits: "literal_value (digits_of n) = int n"
proof (induction n rule: digits_of.induct)
  case (1 n)
  show ?case
  proof (cases "n < 10")
    case True
    then show ?thesis
      by (subst digits_of.simps) (simp add: literal_value_def digit_chr_decimal)
  next
    case False
    have "10 * int (n div 10) + int (n mod 10) = int n"
      by (simp add: zdiv_int zmod_int)
    with False "1.IH" show ?thesis
      by (subst digits_of.simps) (simp add: literal_value_snoc digit_chr_decimal)
  qed
qed

lemma digits_of_no_leading_zero: "0 < n \<Longrightarrow> hd (digits_of n) \<noteq> CHR ''0''"
proof (induction n rule: digits_of.induct)
  case (1 n)
  show ?case
  proof (cases "n < 10")
    case True
    with "1.prems" show ?thesis by (subst digits_of.simps) (simp add: digit_chr_zero)
  next
    case False
    then have "0 < n div 10" by simp
    with False "1.IH" show ?thesis
      by (subst digits_of.simps) (simp add: digits_of_nonempty)
  qed
qed

lemma digits_of_length: "1 < length (digits_of n) \<Longrightarrow> 0 < n"
  by (cases "n = 0") (simp_all add: digits_of.simps)

lemma literal_value_zero_Cons: "literal_value (CHR ''0'' # ds) = literal_value ds"
  by (simp add: literal_value_def is_decimal_chr_def digit_value_def code_point_def)

lemma literal_value_zeros: "literal_value (replicate k (CHR ''0'') @ ds) = literal_value ds"
  by (induction k) (simp_all add: literal_value_zero_Cons)

lemma zfill_digits:
  "list_all is_decimal_chr (zfill w (digits_of n)) \<and>
   w \<le> length (zfill w (digits_of n)) \<and>
   literal_value (zfill w (digits_of n)) = int n \<and>
   (w < length (zfill w (digits_of n)) \<and> 0 < w \<longrightarrow> hd (zfill w (digits_of n)) \<noteq> CHR ''0'')"
proof (intro conjI impI)
  show "list_all is_decimal_chr (zfill w (digits_of n))"
  proof -
    have "is_decimal_chr (CHR ''0'')" by (simp add: is_decimal_chr_def code_point_def)
    then have "list_all is_decimal_chr (replicate k (CHR ''0''))" for k
      by (induction k) simp_all
    then show ?thesis by (simp add: zfill_def digits_of_decimal)
  qed
  show "w \<le> length (zfill w (digits_of n))"
    by (simp add: zfill_def)
  show "literal_value (zfill w (digits_of n)) = int n"
    by (simp add: zfill_def literal_value_zeros literal_value_digits)
  assume "w < length (zfill w (digits_of n)) \<and> 0 < w"
  then have long: "w < length (digits_of n)" and "0 < w"
    by (auto simp: zfill_def split: if_splits)
  then have "0 < n" by (intro digits_of_length) simp
  with long show "hd (zfill w (digits_of n)) \<noteq> CHR ''0''"
    by (simp add: zfill_def digits_of_no_leading_zero)
qed

lemma format_03d_nonneg:
  assumes "0 \<le> i"
  shows "list_all is_decimal_chr (format_03d i) \<and> 3 \<le> length (format_03d i) \<and>
         literal_value (format_03d i) = i \<and>
         (3 < length (format_03d i) \<longrightarrow> hd (format_03d i) \<noteq> CHR ''0'')"
  using assms zfill_digits [of 3 "nat i"] by (simp add: format_03d_def)

lemma format_03d_neg:
  assumes "i < 0"
  shows "\<exists>g. format_03d i = ''-'' @ g \<and> list_all is_decimal_chr g \<and> 2 \<le> length g \<and>
           literal_value g = - i \<and> (2 < length g \<longrightarrow> hd g \<noteq> CHR ''0'')"
  using assms zfill_digits [of 2 "nat (- i)"] by (simp add: format_03d_def)

text \<open>
  Claim C5, amended. The file name is \<open>UNIT\<close>, the picnum in the format \<open>03d\<close>, and
  the extension. For a picnum of at least 0 the number is its decimal digits with zeros
  in front up to three digits; for a negative picnum it is a minus sign and the digits
  of the absolute value with zeros in front up to two digits. The primary path is
  tested first and the secondary one only when the primary is absent, and the outcome
  is exactly one of: found (the primary exists), alternate format (only the secondary
  exists), missing (neither exists).
\<close>

theorem mesh_resolution:
  "(let f = format_03d (picnum u);
        primary_ext = (if mode = ''SRU'' then ''.x'' else ''.cmo'');
        secondary_ext = (if mode = ''SRU'' then ''.cmo'' else ''.x'');
        P = [meshes, ''UNIT'' @ f @ primary_ext];
        S = [meshes, ''UNIT'' @ f @ secondary_ext];
        v = on_selection_changed exists mode meshes u
    in (0 \<le> picnum u \<longrightarrow>
          list_all is_decimal_chr f \<and> 3 \<le> length f \<and> literal_value f = picnum u \<and>
          (3 < length f \<longrightarrow> hd f \<noteq> CHR ''0'')) \<and>
       (picnum u < 0 \<longrightarrow>
          (\<exists>g. f = ''-'' @ g \<and> list_all is_decimal_chr g \<and> 2 \<le> length g \<and>
             literal_value g = - picnum u \<and> (2 < length g \<longrightarrow> hd g \<noteq> CHR ''0''))) \<and>
       (exists P \<longrightarrow>
          v = \<lparr>status_mesh = MESH_FOUND, lbl_mesh_file = ''UNIT'' @ f @ primary_ext,
               btn_view_enabled = True, selected_mesh_path = Some P, probed = [P]\<rparr>) \<and>
       (\<not> exists P \<and> exists S \<longrightarrow>
          v = \<lparr>status_mesh = ALT_FORMAT_FOUND, lbl_mesh_file = ''UNIT'' @ f @ secondary_ext,
               btn_view_enabled = True, selected_mesh_path = Some S, probed = [P, S]\<rparr>) \<and>
       (\<not> exists P \<and> \<not> exists S \<longrightarrow>
          v = \<lparr>status_mesh = MESH_MISSING, lbl_mesh_file = ''UNIT'' @ f @ primary_ext,
               btn_view_enabled = False, selected_mesh_path = None, probed = [P, S]\<rparr>))"
proof -
  have nonneg: "0 \<le> picnum u \<longrightarrow>
      list_all is_decimal_chr (format_03d (picnum u)) \<and> 3 \<le> length (format_03d (picnum u)) \<and>
      literal_value (format_03d (picnum u)) = picnum u \<and>
      (3 < length (format_03d (picnum u)) \<longrightarrow> hd (format_03d (picnum u)) \<noteq> CHR ''0'')"
    using format_03d_nonneg [of "picnum u"] by blast
  have neg: "picnum u < 0 \<longrightarrow>
      (\<exists>g. format_03d (picnum u) = ''-'' @ g \<and> list_all is_decimal_chr g \<and> 2 \<le> length g \<and>
         literal_value g = - picnum u \<and> (2 < length g \<longrightarrow> hd g \<noteq> CHR ''0''))"
    using format_03d_neg [of "picnum u"] by blast
  show ?thesis
    unfolding Let_def
    by (intro conjI nonneg neg) (simp_all add: on_selection_changed_def Let_def)
qed

lemmas ui_eval = on_selection_changed_def format_03d_def zfill_def digit_chr_def digits_of.simps
  replicate_numeral str_int_def search_by_picnum_def example_browser_def example_units_def
  strip_def isspace_chr_def code_point_def py_int_def int_space_chr_def is_decimal_chr_def
  literal_value_def digit_value_def int_max_str_digits_def Let_def

text \<open>
  Claim C5 says that for every picnum the stem holds the picnum zero-padded to three
  digits. For picnum \<open>-7\<close> the paths tested are \<open>UNIT-07.x\<close> and \<open>UNIT-07.cmo\<close>: two
  digits after the sign.
\<close>

theorem mesh_stem_counterexample:
  "probed (on_selection_changed (\<lambda>p. False) ''SRU'' ''Meshes''
      \<lparr>unit_id = 1, name = ''Tank'', picnum = - 7, unit_class = 3, category = ''land'',
       regions = ''''\<rparr>)
   = [[''Meshes'', ''UNIT-07.x''], [''Meshes'', ''UNIT-07.cmo'']]"
  by (simp add: ui_eval)

text \<open>
  A mesh folder that holds only \<open>UNIT007.cmo\<close>, and a unit with picnum 7: alternate
  format under the profile \<open>SRU\<close> (primary \<open>.x\<close>), found under \<open>SR2030\<close> (primary
  \<open>.cmo\<close>).
\<close>

theorem mesh_resolution_witness:
  "on_selection_changed (\<lambda>p. p = [''Meshes'', ''UNIT007.cmo'']) ''SRU'' ''Meshes''
      \<lparr>unit_id = 5, name = ''Falcon'', picnum = 7, unit_class = 9, category = ''air'',
       regions = ''U''\<rparr>
     = \<lparr>status_mesh = ALT_FORMAT_FOUND, lbl_mesh_file = ''UNIT007.cmo'',
        btn_view_enabled = True, selected_mesh_path = Some [''Meshes'', ''UNIT007.cmo''],
        probed = [[''Meshes'', ''UNIT007.x''], [''Meshes'', ''UNIT007.cmo'']]\<rparr> \<and>
   on_selection_changed (\<lambda>p. p = [''Meshes'', ''UNIT007.cmo'']) ''SR2030'' ''Meshes''
      \<lparr>unit_id = 5, name = ''Falcon'', picnum = 7, unit_class = 9, category = ''air'',
       regions = ''U''\<rparr>
     = \<lparr>status_mesh = MESH_FOUND, lbl_mesh_file = ''UNIT007.cmo'',
        btn_view_enabled = True, selected_mesh_path = Some [''Meshes'', ''UNIT007.cmo''],
        probed = [[''Meshes'', ''UNIT007.cmo'']]\<rparr>"
proof -
  have f: "format_03d 7 = ''007''"
    by (simp add: ui_eval)
  from f mesh_resolution [of "\<lparr>unit_id = 5, name = ''Falcon'', picnum = 7, unit_class = 9,
        category = ''air'', regions = ''U''\<rparr>" "''SRU''" "''Meshes''"
      "\<lambda>p. p = [''Meshes'', ''UNIT007.cmo'']"]
    mesh_resolution [of "\<lparr>unit_id = 5, name = ''Falcon'', picnum = 7, unit_class = 9,
        category = ''air'', regions = ''U''\<rparr>" "''SR2030''" "''Meshes''"
      "\<lambda>p. p = [''Meshes'', ''UNIT007.cmo'']"]
  show ?thesis by (simp add: Let_def)
qed

text \<open>
  Claim C10 says that a query that is not an integer produces a warning. A query of two
  spaces is not an integer, and \<open>search_by_picnum\<close> returns at line 729 without a
  warning.
\<close>

theorem empty_query_counterexample:
  "py_int (strip (picnum_input (example_browser\<lparr>picnum_input := ''  ''\<rparr>))) = Inl ValueError \<and>
   warnings (search_by_picnum (\<lambda>n. ('''', False)) (\<lambda>p. False)
      (example_browser\<lparr>picnum_input := ''  ''\<rparr>)) = []"
  by (simp add: ui_eval)

text \<open>
  The example window, with a search text, a category, a region and a sort entry set: the
  query \<open>450\<close> lists the two units with that picnum in load order, and the query
  \<open>4x\<close> gives the warning.
\<close>

theorem picnum_lookup_witness:
  "map item_unit (unit_list (search_by_picnum (\<lambda>n. ('''', False)) (\<lambda>p. False) example_browser))
     = [\<lparr>unit_id = 12, name = ''Leopard'', picnum = 450, unit_class = 3,
          category = ''land'', regions = ''G''\<rparr>,
        \<lparr>unit_id = 8, name = ''Abrams'', picnum = 450, unit_class = 3,
          category = ''land'', regions = ''U''\<rparr>] \<and>
   warnings (search_by_picnum (\<lambda>n. ('''', False)) (\<lambda>p. False)
      (example_browser\<lparr>picnum_input := ''4x''\<rparr>)) = [''Please enter a valid picnum number.'']"
proof -
  have ok: "py_int (strip (picnum_input example_browser)) = Inr 450"
    by (simp add: ui_eval)
  have bad: "strip (picnum_input (example_browser\<lparr>picnum_input := ''4x''\<rparr>)) \<noteq> [] \<and>
      py_int (strip (picnum_input (example_browser\<lparr>picnum_input := ''4x''\<rparr>))) = Inl ValueError"
    by (simp add: ui_eval)
  from ok picnum_lookup [of example_browser 450 "\<lambda>n. ('''', False)" "\<lambda>p. False"]
  have 1: "map item_unit (unit_list (search_by_picnum (\<lambda>n. ('''', False)) (\<lambda>p. False) example_browser))
     = filter (\<lambda>u. picnum u = 450) (units_loaded example_browser)"
    by blast
  from bad picnum_lookup [of "example_browser\<lparr>picnum_input := ''4x''\<rparr>" 0 "\<lambda>n. ('''', False)"
      "\<lambda>p. False" ValueError]
  have 2: "search_by_picnum (\<lambda>n. ('''', False)) (\<lambda>p. False) (example_browser\<lparr>picnum_input := ''4x''\<rparr>)
     = (example_browser\<lparr>picnum_input := ''4x''\<rparr>)\<lparr>warnings :=
         warnings (example_browser\<lparr>picnum_input := ''4x''\<rparr>) @ [''Please enter a valid picnum number.'']\<rparr>"
    by blast
  show ?thesis
    unfolding 1 2 by (simp add: example_browser_def example_units_def)
qed

end
